theory Spec2Isabelle
  imports Main
begin

section \<open>Python strings\<close>

text \<open>
  A Python \<open>str\<close> is a sequence of Unicode code points, so a string is a list of code
  points here. The fixed ASCII literals of the source are written as HOL string literals
  and injected with \<open>lit\<close>.
\<close>

type_synonym codepoint = nat
type_synonym str = "codepoint list"

definition lit :: "string \<Rightarrow> str" where
  "lit s = map of_char s"

definition NL :: codepoint where
  "NL = 0x0A"

text \<open>
  The code points that \<open>str.strip()\<close> removes when called without an argument: those for
  which \<open>str.isspace\<close> holds.
\<close>

definition isspace :: "codepoint \<Rightarrow> bool" where
  "isspace c \<longleftrightarrow>
     c \<in> {0x09, 0x0A, 0x0B, 0x0C, 0x0D, 0x1C, 0x1D, 0x1E, 0x1F, 0x20, 0x85, 0xA0,
          0x1680, 0x2028, 0x2029, 0x202F, 0x205F, 0x3000}
     \<or> (0x2000 \<le> c \<and> c \<le> 0x200A)"

definition lstrip :: "str \<Rightarrow> str" where
  "lstrip s = dropWhile isspace s"

definition rstrip :: "str \<Rightarrow> str" where
  "rstrip s = rev (dropWhile isspace (rev s))"

definition strip :: "str \<Rightarrow> str" where
  "strip s = rstrip (lstrip s)"

text \<open>\<open>s.split(sep)\<close> for a separator of one code point.\<close>

fun str_split :: "codepoint \<Rightarrow> str \<Rightarrow> str list" where
  "str_split sep [] = [[]]"
| "str_split sep (c # cs) =
     (if c = sep then [] # str_split sep cs
      else (case str_split sep cs of
              [] \<Rightarrow> [[c]]
            | p # ps \<Rightarrow> (c # p) # ps))"

section \<open>Exceptions\<close>

text \<open>
  The exceptions other than \<open>HTTPException\<close>, as far as the \<open>except\<close> clauses tell them
  apart. \<open>ConnectionError\<close> stands for a \<open>requests.exceptions.ConnectionError\<close> that is no
  \<open>Timeout\<close> (a refused connection, for one) and \<open>ReadTimeout\<close> for a
  \<open>requests.exceptions.Timeout\<close> that is no \<open>ConnectionError\<close>; the class
  \<open>ConnectTimeout\<close> of \<open>requests\<close> derives from both. \<open>OtherException\<close> is any other
  subclass of \<open>Exception\<close>.
\<close>

datatype py_exception =
    ConnectionError
  | ConnectTimeout
  | ReadTimeout
  | HTTPError
  | JSONDecodeError
  | AttributeError
  | IndexError
  | OtherException

fun isinstance_ConnectionError :: "py_exception \<Rightarrow> bool" where
  "isinstance_ConnectionError ConnectionError = True"
| "isinstance_ConnectionError ConnectTimeout = True"
| "isinstance_ConnectionError _ = False"

fun isinstance_Timeout :: "py_exception \<Rightarrow> bool" where
  "isinstance_Timeout ConnectTimeout = True"
| "isinstance_Timeout ReadTimeout = True"
| "isinstance_Timeout _ = False"

section \<open>The clean-up of a response\<close>

text \<open>\<open>xs[0]\<close>: raises \<open>IndexError\<close> on the empty list.\<close>

definition index0 :: "'a list \<Rightarrow> py_exception + 'a" where
  "index0 xs = (case xs of [] \<Rightarrow> Inl IndexError | x # _ \<Rightarrow> Inr x)"

text \<open>
  The clean-up expression of lines 117 to 119, \<open>x.split('\n')[0].strip()\<close>, applied to a
  string.
\<close>

definition normalize :: "str \<Rightarrow> py_exception + str" where
  "normalize raw =
     (case index0 (str_split NL raw) of
        Inl x \<Rightarrow> Inl x
      | Inr first \<Rightarrow> Inr (strip first))"

section \<open>The inference server as seen through \<open>requests\<close>\<close>

text \<open>
  The two requests the backend issues. The JSON body of the \<open>POST\<close> is fixed apart from
  the prompt.
\<close>

datatype request = POST_generate str | GET_tags

text \<open>
  A value found under a key of the decoded JSON object: a string, or anything else
  (null, number, boolean, array, object).
\<close>

datatype jvalue = JString str | JNonString

text \<open>
  What \<open>response.json()\<close> does: it raises on a payload that is not JSON, and otherwise
  returns the decoded value, which is a \<open>dict\<close> or not.
\<close>

datatype body = NotJSON | JNotDict | JDict "str \<Rightarrow> jvalue option"

text \<open>
  What one call of \<open>requests.post\<close> or \<open>requests.get\<close> does: it raises an exception or
  returns a response with a status code and a payload.
\<close>

datatype reply = Raises py_exception | Response int body

text \<open>
  The server and the network: the reply to a request, given the requests issued before
  it. The second component of every result below is the list of requests issued so far.
\<close>

type_synonym server = "request list \<Rightarrow> request \<Rightarrow> reply"

text \<open>
  \<open>response.raise_for_status()\<close> raises \<open>HTTPError\<close> for a status code from 400 to 599
  and for no other.
\<close>

definition raise_for_status :: "int \<Rightarrow> bool" where
  "raise_for_status status_code \<longleftrightarrow> 400 \<le> status_code \<and> status_code < 600"

section \<open>\<open>query_ollama\<close>\<close>

datatype error = HTTPException int string

definition Unreachable :: error where
  "Unreachable = HTTPException 503
     ''Cannot connect to Ollama. Make sure Ollama is running on localhost:11434''"

definition TimedOut :: error where
  "TimedOut = HTTPException 504 ''Ollama request timed out. Please try again.''"

definition ModelError :: error where
  "ModelError = HTTPException 500 ''Error processing request with AI model''"

text \<open>
  The \<open>try\<close> body of lines 26 to 41, given the outcome of \<open>requests.post\<close>:
  \<open>raise_for_status\<close>, \<open>json()\<close>, \<open>get("response", "")\<close> and \<open>strip()\<close>. A decoded value
  that is no \<open>dict\<close> has no \<open>get\<close>, and a \<open>response\<close> that is no string has no \<open>strip\<close>.
\<close>

definition try_body :: "reply \<Rightarrow> py_exception + str" where
  "try_body r =
     (case r of
        Raises x \<Rightarrow> Inl x
      | Response status_code b \<Rightarrow>
          if raise_for_status status_code then Inl HTTPError
          else (case b of
                  NotJSON \<Rightarrow> Inl JSONDecodeError
                | JNotDict \<Rightarrow> Inl AttributeError
                | JDict result \<Rightarrow>
                    (case (case result (lit ''response'') of None \<Rightarrow> JString [] | Some v \<Rightarrow> v) of
                       JString s \<Rightarrow> Inr (strip s)
                     | JNonString \<Rightarrow> Inl AttributeError)))"

text \<open>
  The \<open>for\<close> loop of line 24 over the remaining values of \<open>attempt\<close>. The three
  \<open>except\<close> clauses are tried in their order, so an exception that is both a
  \<open>ConnectionError\<close> and a \<open>Timeout\<close> is caught by the first. A result \<open>Inr None\<close> is the
  function falling off its end, which returns \<open>None\<close>. The call of \<open>logger.error\<close> in the
  last clause writes a log line and changes nothing else; it is left out.
\<close>

fun attempts ::
  "server \<Rightarrow> str \<Rightarrow> int \<Rightarrow> int list \<Rightarrow> request list \<Rightarrow> (error + str option) \<times> request list"
where
  "attempts srv prompt max_retries [] sent = (Inr None, sent)"
| "attempts srv prompt max_retries (attempt # rest) sent =
     (let sent' = sent @ [POST_generate prompt] in
      case try_body (srv sent (POST_generate prompt)) of
        Inr s \<Rightarrow> (Inr (Some s), sent')
      | Inl x \<Rightarrow>
          if isinstance_ConnectionError x then
            if attempt = max_retries - 1 then (Inl Unreachable, sent')
            else attempts srv prompt max_retries rest sent'
          else if isinstance_Timeout x then
            if attempt = max_retries - 1 then (Inl TimedOut, sent')
            else attempts srv prompt max_retries rest sent'
          else
            if attempt = max_retries - 1 then (Inl ModelError, sent')
            else attempts srv prompt max_retries rest sent')"

text \<open>\<open>range(max_retries)\<close> is the list of the integers from 0 to \<open>max_retries - 1\<close>.\<close>

definition query_ollama ::
  "server \<Rightarrow> str \<Rightarrow> int \<Rightarrow> request list \<Rightarrow> (error + str option) \<times> request list"
where
  "query_ollama srv prompt max_retries sent =
     attempts srv prompt max_retries [0..max_retries - 1] sent"

section \<open>\<open>health_check\<close>\<close>

record health =
  status :: string
  ollama :: string

text \<open>The bare \<open>except\<close> catches whatever the \<open>try\<close> body raises.\<close>

definition health_check :: "server \<Rightarrow> request list \<Rightarrow> (error + health) \<times> request list" where
  "health_check srv sent =
     (let sent' = sent @ [GET_tags] in
      case srv sent GET_tags of
        Raises x \<Rightarrow> (Inr \<lparr>status = ''unhealthy'', ollama = ''disconnected''\<rparr>, sent')
      | Response status_code b \<Rightarrow>
          if raise_for_status status_code
          then (Inr \<lparr>status = ''unhealthy'', ollama = ''disconnected''\<rparr>, sent')
          else (Inr \<lparr>status = ''healthy'', ollama = ''connected''\<rparr>, sent'))"

definition healthy :: "health \<Rightarrow> bool" where
  "healthy h \<longleftrightarrow> status h = ''healthy''"

section \<open>\<open>analyze_review\<close>\<close>

definition sentiment_prompt :: "str \<Rightarrow> str" where
  "sentiment_prompt text =
     lit ''Analyze the sentiment of this product review and respond with only one word: Positive, Neutral, or Negative.\<newline>\<newline>Review: ''
     @ lit [CHR 0x22] @ text @ lit [CHR 0x22]
     @ lit ''\<newline>\<newline>Sentiment:''"

definition topic_prompt :: "str \<Rightarrow> str" where
  "topic_prompt text =
     lit ''Identify the main topic or issue discussed in this product review. Choose from these categories or provide a brief 2-3 word description:\<newline>''
     @ lit ''- Product Quality\<newline>''
     @ lit ''- Delivery/Shipping  \<newline>''
     @ lit ''- Price/Value\<newline>''
     @ lit ''- Customer Service\<newline>''
     @ lit ''- Design/Appearance\<newline>''
     @ lit ''- Functionality\<newline>''
     @ lit ''- Durability\<newline>\<newline>Review: ''
     @ lit [CHR 0x22] @ text @ lit [CHR 0x22]
     @ lit ''\<newline>\<newline>Main Topic:''"

definition summary_prompt :: "str \<Rightarrow> str" where
  "summary_prompt text =
     lit ''Summarize this product review in one concise sentence (maximum 15 words):\<newline>\<newline>Review: ''
     @ lit [CHR 0x22] @ text @ lit [CHR 0x22]
     @ lit ''\<newline>\<newline>Summary:''"

record analysis =
  sentiment :: str
  topic :: str
  summary :: str

definition EmptyInput :: error where
  "EmptyInput = HTTPException 400 ''Review text cannot be empty''"

definition InternalError :: error where
  "InternalError = HTTPException 500 ''Internal server error''"

text \<open>
  Lines 117 to 119 applied to what \<open>query_ollama\<close> returned: \<open>None\<close> has no \<open>split\<close>.
\<close>

definition clean :: "str option \<Rightarrow> py_exception + str" where
  "clean r = (case r of None \<Rightarrow> Inl AttributeError | Some raw \<Rightarrow> normalize raw)"

text \<open>
  The three calls use the default \<open>max_retries = 3\<close>. An \<open>HTTPException\<close> is raised again
  as it is; any other exception becomes \<open>InternalError\<close>.
\<close>

definition analyze_review ::
  "server \<Rightarrow> str \<Rightarrow> request list \<Rightarrow> (error + analysis) \<times> request list"
where
  "analyze_review srv text sent =
     (if strip text = [] then (Inl EmptyInput, sent)
      else
        (case query_ollama srv (sentiment_prompt text) 3 sent of
           (Inl e, sent1) \<Rightarrow> (Inl e, sent1)
         | (Inr sentiment_raw, sent1) \<Rightarrow>
        (case query_ollama srv (topic_prompt text) 3 sent1 of
           (Inl e, sent2) \<Rightarrow> (Inl e, sent2)
         | (Inr topic_raw, sent2) \<Rightarrow>
        (case query_ollama srv (summary_prompt text) 3 sent2 of
           (Inl e, sent3) \<Rightarrow> (Inl e, sent3)
         | (Inr summary_raw, sent3) \<Rightarrow>
        (case clean sentiment_raw of
           Inl x \<Rightarrow> (Inl InternalError, sent3)
         | Inr sentiment_clean \<Rightarrow>
        (case clean topic_raw of
           Inl x \<Rightarrow> (Inl InternalError, sent3)
         | Inr topic_clean \<Rightarrow>
        (case clean summary_raw of
           Inl x \<Rightarrow> (Inl InternalError, sent3)
         | Inr summary_clean \<Rightarrow>
             (Inr \<lparr>sentiment = sentiment_clean, topic = topic_clean,
                   summary = summary_clean\<rparr>,
              sent3))))))))"

section \<open>Servers used in the examples\<close>

definition ok_reply :: "str \<Rightarrow> reply" where
  "ok_reply s = Response 200 (JDict [lit ''response'' \<mapsto> JString s])"

definition always_refused :: server where
  "always_refused = (\<lambda>sent r. Raises ConnectionError)"

definition always_connect_timeout :: server where
  "always_connect_timeout = (\<lambda>sent r. Raises ConnectTimeout)"

definition refused_then_connect_timeout :: server where
  "refused_then_connect_timeout =
     (\<lambda>sent r. if sent = [] then Raises ConnectionError else Raises ConnectTimeout)"

definition always_timeout :: server where
  "always_timeout = (\<lambda>sent r. Raises ReadTimeout)"

definition padded_server :: server where
  "padded_server = (\<lambda>sent r. ok_reply (lit '' Positive ''))"

definition flaky_server :: server where
  "flaky_server =
     (\<lambda>sent r. if length sent < 2 then Raises ConnectionError else ok_reply (lit ''Negative''))"

definition topic_failing_server :: server where
  "topic_failing_server =
     (\<lambda>sent r. if sent = [] then ok_reply (lit ''Positive'') else Response 500 NotJSON)"

definition summary_failing_server :: server where
  "summary_failing_server =
     (\<lambda>sent r. if length sent < 2 then ok_reply (lit ''Positive'') else Raises ReadTimeout)"

definition silent_server :: server where
  "silent_server = (\<lambda>sent r. Response 200 (JDict Map.empty))"

definition not_modified_server :: server where
  "not_modified_server = (\<lambda>sent r. Response 304 NotJSON)"

definition no_content_server :: server where
  "no_content_server = (\<lambda>sent r. Response 204 NotJSON)"

definition empty_text_server :: server where
  "empty_text_server = (\<lambda>sent r. ok_reply [])"

text \<open>
  A reply that is a success with a missing or empty content field: a status that raises
  nothing and a JSON object whose \<open>response\<close> field is absent or the empty string.
\<close>

definition empty_success :: "reply \<Rightarrow> bool" where
  "empty_success r \<longleftrightarrow>
     (case r of
        Response status_code (JDict result) \<Rightarrow>
          \<not> raise_for_status status_code
          \<and> (result (lit ''response'') = None \<or> result (lit ''response'') = Some (JString []))
      | _ \<Rightarrow> False)"

section \<open>Properties of \<open>strip\<close> and \<open>split\<close>\<close>

lemma dropWhile_nil_iff: "dropWhile P xs = [] \<longleftrightarrow> (\<forall>x\<in>set xs. P x)"
  by (induction xs) auto

lemma strip_empty_iff: "strip s = [] \<longleftrightarrow> (\<forall>c\<in>set s. isspace c)"
proof -
  have "strip s = [] \<longleftrightarrow> (\<forall>c\<in>set (dropWhile isspace s). isspace c)"
    by (simp add: strip_def rstrip_def lstrip_def dropWhile_nil_iff)
  also have "\<dots> \<longleftrightarrow> (\<forall>c\<in>set s. isspace c)"
  proof
    assume a: "\<forall>c\<in>set (dropWhile isspace s). isspace c"
    show "\<forall>c\<in>set s. isspace c"
    proof (cases "dropWhile isspace s")
      case Nil
      then show ?thesis by (simp add: dropWhile_nil_iff)
    next
      case (Cons x xs)
      then have "\<not> isspace x" using hd_dropWhile[of isspace s] by auto
      moreover have "x \<in> set (dropWhile isspace s)" using Cons by simp
      ultimately show ?thesis using a by blast
    qed
  next
    assume "\<forall>c\<in>set s. isspace c"
    then show "\<forall>c\<in>set (dropWhile isspace s). isspace c"
      using set_dropWhileD by fastforce
  qed
  finally show ?thesis .
qed

lemma rstrip_decomp: "s = rstrip s @ rev (takeWhile isspace (rev s))"
proof -
  have "s = rev (takeWhile isspace (rev s) @ dropWhile isspace (rev s))"
    by (simp only: takeWhile_dropWhile_id rev_rev_ident)
  also have "\<dots> = rev (dropWhile isspace (rev s)) @ rev (takeWhile isspace (rev s))"
    by (rule rev_append)
  finally show ?thesis by (simp only: rstrip_def)
qed

lemma strip_decomp:
  "s = takeWhile isspace s @ strip s @ rev (takeWhile isspace (rev (lstrip s)))"
proof -
  have "s = takeWhile isspace s @ lstrip s" by (simp add: lstrip_def)
  also have "lstrip s = strip s @ rev (takeWhile isspace (rev (lstrip s)))"
    unfolding strip_def by (rule rstrip_decomp)
  finally show ?thesis .
qed

lemma strip_edges:
  assumes "strip s \<noteq> []"
  shows "\<not> isspace (hd (strip s))" and "\<not> isspace (last (strip s))"
proof -
  let ?l = "lstrip s"
  have l: "?l \<noteq> []" using assms by (auto simp: strip_def rstrip_def)
  have r: "dropWhile isspace (rev ?l) \<noteq> []" using assms by (simp add: strip_def rstrip_def)
  have "\<not> isspace (hd (dropWhile isspace (rev ?l)))" using r by (rule hd_dropWhile)
  then show "\<not> isspace (last (strip s))"
    using r by (simp add: strip_def rstrip_def last_rev)
  have hl: "\<not> isspace (hd ?l)" using l unfolding lstrip_def by (rule hd_dropWhile)
  have "?l = strip s @ rev (takeWhile isspace (rev ?l))"
    unfolding strip_def by (rule rstrip_decomp)
  then have "hd ?l = hd (strip s)" using assms by (metis hd_append2)
  then show "\<not> isspace (hd (strip s))" using hl by simp
qed

lemma strip_id:
  assumes "s \<noteq> []" "\<not> isspace (hd s)" "\<not> isspace (last s)"
  shows "strip s = s"
proof -
  have "lstrip s = s" using assms by (cases s) (auto simp: lstrip_def)
  moreover have "rstrip s = s" using assms
    by (cases "rev s") (auto simp: rstrip_def last_rev hd_rev)
  ultimately show ?thesis by (simp add: strip_def)
qed

lemma str_split_hd:
  "\<exists>ps. str_split sep s = takeWhile (\<lambda>c. c \<noteq> sep) s # ps"
  by (induction s) auto

lemma index0_str_split: "index0 (str_split sep s) = Inr (takeWhile (\<lambda>c. c \<noteq> sep) s)"
  using str_split_hd[of sep s] by (auto simp: index0_def)

lemma normalize_eq: "normalize raw = Inr (strip (takeWhile (\<lambda>c. c \<noteq> NL) raw))"
  by (simp add: normalize_def index0_str_split)

section \<open>Properties of the retry loop\<close>

lemma attempts_sent:
  "attempts srv p m as sent = (r, sent') \<Longrightarrow>
   \<exists>k\<le>length as. sent' = sent @ replicate k (POST_generate p)"
proof (induction as arbitrary: sent)
  case Nil
  then show ?case by simp
next
  case (Cons a as)
  let ?R = "POST_generate p"
  show ?case
  proof (cases "attempts srv p m (a # as) sent = attempts srv p m as (sent @ [?R])")
    case True
    with Cons.prems have "attempts srv p m as (sent @ [?R]) = (r, sent')" by simp
    from Cons.IH[OF this] obtain k where "k \<le> length as" "sent' = (sent @ [?R]) @ replicate k ?R"
      by blast
    then have "Suc k \<le> length (a # as)" "sent' = sent @ replicate (Suc k) ?R" by simp_all
    then show ?thesis by blast
  next
    case False
    then have "sent' = sent @ replicate 1 ?R"
      using Cons.prems by (auto simp: Let_def split: sum.splits if_splits)
    then show ?thesis by (intro exI[of _ 1]) simp
  qed
qed

lemma attempts_retry:
  assumes "\<forall>k<j. \<exists>c. try_body (srv (sent @ replicate k (POST_generate p)) (POST_generate p)) = Inl c"
    and "i + int j \<le> m - 1"
  shows "attempts srv p m [i..m - 1] sent =
         attempts srv p m [i + int j..m - 1] (sent @ replicate j (POST_generate p))"
  using assms
proof (induction j arbitrary: i sent)
  case 0
  then show ?case by simp
next
  case (Suc j)
  let ?R = "POST_generate p"
  from Suc.prems(2) have le: "i \<le> m - 1" and ne: "i \<noteq> m - 1" by simp_all
  from Suc.prems(1) obtain c where c: "try_body (srv sent ?R) = Inl c"
    by (metis append_Nil2 replicate_0 zero_less_Suc)
  have step: "attempts srv p m [i..m - 1] sent = attempts srv p m [i + 1..m - 1] (sent @ [?R])"
    using c ne by (subst upto_rec1[OF le]) (simp add: Let_def)
  have "\<forall>k<j. \<exists>c. try_body (srv ((sent @ [?R]) @ replicate k ?R) ?R) = Inl c"
  proof (intro allI impI)
    fix k assume "k < j"
    then have "Suc k < Suc j" by simp
    with Suc.prems(1) have "\<exists>c. try_body (srv (sent @ replicate (Suc k) ?R) ?R) = Inl c" by blast
    then show "\<exists>c. try_body (srv ((sent @ [?R]) @ replicate k ?R) ?R) = Inl c" by simp
  qed
  moreover have "i + 1 + int j \<le> m - 1" using Suc.prems(2) by simp
  ultimately have "attempts srv p m [i + 1..m - 1] (sent @ [?R]) =
      attempts srv p m [i + 1 + int j..m - 1] ((sent @ [?R]) @ replicate j ?R)"
    by (rule Suc.IH)
  moreover have "i + 1 + int j = i + int (Suc j)" by simp
  moreover have "(sent @ [?R]) @ replicate j ?R = sent @ replicate (Suc j) ?R" by simp
  ultimately show ?case using step by (simp only:)
qed

lemma attempts_not_None:
  "i \<le> m - 1 \<Longrightarrow> nat (m - 1 - i) = n \<Longrightarrow> fst (attempts srv p m [i..m - 1] sent) \<noteq> Inr None"
proof (induction n arbitrary: i sent)
  case 0
  then have "i = m - 1" by simp
  then have "[i..m - 1] = [m - 1]" by simp
  then show ?case by (simp add: Let_def split: sum.splits)
next
  case (Suc n)
  then have ne: "i \<noteq> m - 1" and le: "i + 1 \<le> m - 1" and n: "nat (m - 1 - (i + 1)) = n" by simp_all
  have IH: "fst (attempts srv p m [i + 1..m - 1] (sent @ [POST_generate p])) \<noteq> Inr None"
    using Suc.IH[OF le n] .
  show ?case
    using ne IH by (subst upto_rec1[OF Suc.prems(1)]) (simp add: Let_def split: sum.splits)
qed

lemma attempts_last_fail:
  "try_body (srv sent (POST_generate p)) = Inl c \<Longrightarrow>
   attempts srv p m [m - 1..m - 1] sent =
     (Inl (if isinstance_ConnectionError c then Unreachable
           else if isinstance_Timeout c then TimedOut else ModelError),
      sent @ [POST_generate p])"
  by (simp add: Let_def)

lemma attempts_success:
  "try_body (srv sent (POST_generate p)) = Inr v \<Longrightarrow> i \<le> m - 1 \<Longrightarrow>
   attempts srv p m [i..m - 1] sent = (Inr (Some v), sent @ [POST_generate p])"
  by (subst upto_rec1) (simp_all add: Let_def)

lemma query_ollama_all_fail:
  assumes "1 \<le> m"
    and "\<forall>k<nat m. try_body (srv (sent @ replicate k (POST_generate p)) (POST_generate p))
                      = Inl (X k)"
  shows "query_ollama srv p m sent =
     (Inl (if isinstance_ConnectionError (X (nat m - 1)) then Unreachable
           else if isinstance_Timeout (X (nat m - 1)) then TimedOut else ModelError),
      sent @ replicate (nat m) (POST_generate p))"
proof -
  let ?R = "POST_generate p"
  let ?j = "nat (m - 1)"
  have j: "0 + int ?j \<le> m - 1" "0 + int ?j = m - 1" using assms(1) by simp_all
  have jm: "?j = nat m - 1" "?j < nat m" using assms(1) by simp_all
  have "\<forall>k<?j. \<exists>c. try_body (srv (sent @ replicate k ?R) ?R) = Inl c"
    using assms by auto
  from attempts_retry[where srv=srv and sent=sent and p=p and i=0 and j="?j" and m=m, OF this j(1)]
  have "query_ollama srv p m sent = attempts srv p m [m - 1..m - 1] (sent @ replicate ?j ?R)"
    unfolding query_ollama_def j(2) .
  moreover have "try_body (srv (sent @ replicate ?j ?R) ?R) = Inl (X (nat m - 1))"
    using assms(2) jm by auto
  moreover have "(sent @ replicate ?j ?R) @ [?R] = sent @ replicate (nat m) ?R"
  proof -
    have "nat m = Suc ?j" using assms(1) by simp
    then show ?thesis by (simp add: replicate_append_same)
  qed
  ultimately show ?thesis by (simp only: attempts_last_fail)
qed

lemma query_ollama_nth_success:
  assumes "1 \<le> N" "int N \<le> m"
    and "\<forall>k<N - 1. \<exists>c. try_body (srv (sent @ replicate k (POST_generate p)) (POST_generate p)) = Inl c"
    and "try_body (srv (sent @ replicate (N - 1) (POST_generate p)) (POST_generate p)) = Inr v"
  shows "query_ollama srv p m sent = (Inr (Some v), sent @ replicate N (POST_generate p))"
proof -
  let ?R = "POST_generate p"
  have j: "0 + int (N - 1) \<le> m - 1" using assms(1,2) by simp
  from attempts_retry[where srv=srv and sent=sent and p=p and i=0 and j="N - 1" and m=m, OF assms(3) j]
  have "query_ollama srv p m sent = attempts srv p m [0 + int (N - 1)..m - 1] (sent @ replicate (N - 1) ?R)"
    unfolding query_ollama_def .
  also have "\<dots> = (Inr (Some v), (sent @ replicate (N - 1) ?R) @ [?R])"
    using assms(4) j by (rule attempts_success)
  also have "(sent @ replicate (N - 1) ?R) @ [?R] = sent @ replicate N ?R"
  proof -
    have "N = Suc (N - 1)" using assms(1) by simp
    then show ?thesis by (metis append_assoc replicate_append_same replicate_Suc)
  qed
  finally show ?thesis .
qed

section \<open>Claims about \<open>query_ollama\<close>\<close>

text \<open>
  C2, as the specification states it, fails for a timeout of the connection attempt: the
  exception \<open>ConnectTimeout\<close> is a \<open>Timeout\<close>, but it is a \<open>ConnectionError\<close> too and the
  clause of line 42 catches it before the clause of line 48 is tried. A server on which
  every attempt times out in this way makes \<open>query_ollama\<close> raise the 503 error
  \<open>Unreachable\<close> after three attempts, not the 504 error \<open>TimedOut\<close>.
\<close>

theorem query_ollama_connect_timeout_counterexample:
  "always_connect_timeout [] (POST_generate (lit ''hello'')) = Raises ConnectTimeout
   \<and> always_connect_timeout [POST_generate (lit ''hello'')] (POST_generate (lit ''hello''))
       = Raises ConnectTimeout
   \<and> always_connect_timeout [POST_generate (lit ''hello''), POST_generate (lit ''hello'')]
         (POST_generate (lit ''hello''))
       = Raises ConnectTimeout
   \<and> isinstance_Timeout ConnectTimeout
   \<and> query_ollama always_connect_timeout (lit ''hello'') 3 [] =
       (Inl Unreachable,
        [POST_generate (lit ''hello''), POST_generate (lit ''hello''),
         POST_generate (lit ''hello'')])
   \<and> Unreachable \<noteq> TimedOut"
  by (simp add: query_ollama_def always_connect_timeout_def try_body_def upto_rec1 Let_def
      Unreachable_def TimedOut_def)

text \<open>
  C2, amended. For every prompt and every \<open>max_retries\<close> of at least 1, when every one of
  the \<open>max_retries\<close> attempts fails with an exception of the same kind, whichever exception
  of that kind it is at each attempt: \<open>query_ollama\<close> makes exactly \<open>max_retries\<close> attempts,
  no more and no fewer, and only then raises the 503 error \<open>Unreachable\<close> when the kind is
  a connection error (a refused connection, or a timeout of the connection attempt), and the
  504 error \<open>TimedOut\<close> when the kind is a timeout that is not a connection error.
\<close>

theorem query_ollama_exhausts_retries:
  assumes "1 \<le> max_retries"
    and "\<forall>k<nat max_retries.
           srv (sent @ replicate k (POST_generate prompt)) (POST_generate prompt) = Raises (X k)"
  shows "((\<forall>k<nat max_retries. isinstance_ConnectionError (X k)) \<longrightarrow>
            query_ollama srv prompt max_retries sent =
              (Inl Unreachable, sent @ replicate (nat max_retries) (POST_generate prompt)))
       \<and> ((\<forall>k<nat max_retries. isinstance_Timeout (X k) \<and> \<not> isinstance_ConnectionError (X k))
            \<longrightarrow>
            query_ollama srv prompt max_retries sent =
              (Inl TimedOut, sent @ replicate (nat max_retries) (POST_generate prompt)))"
proof -
  have last: "nat max_retries - 1 < nat max_retries" using assms(1) by simp
  from assms(2)
  have "\<forall>k<nat max_retries.
          try_body (srv (sent @ replicate k (POST_generate prompt)) (POST_generate prompt))
            = Inl (X k)"
    by (simp add: try_body_def)
  from query_ollama_all_fail[where srv=srv and sent=sent and p=prompt and X=X, OF assms(1) this]
  have q: "query_ollama srv prompt max_retries sent =
     (Inl (if isinstance_ConnectionError (X (nat max_retries - 1)) then Unreachable
           else if isinstance_Timeout (X (nat max_retries - 1)) then TimedOut else ModelError),
      sent @ replicate (nat max_retries) (POST_generate prompt))" .
  show ?thesis
  proof (intro conjI impI)
    assume "\<forall>k<nat max_retries. isinstance_ConnectionError (X k)"
    with last have "isinstance_ConnectionError (X (nat max_retries - 1))" by blast
    with q show "query_ollama srv prompt max_retries sent =
              (Inl Unreachable, sent @ replicate (nat max_retries) (POST_generate prompt))"
      by simp
  next
    assume "\<forall>k<nat max_retries. isinstance_Timeout (X k) \<and> \<not> isinstance_ConnectionError (X k)"
    with last have "isinstance_Timeout (X (nat max_retries - 1))
        \<and> \<not> isinstance_ConnectionError (X (nat max_retries - 1))" by blast
    with q show "query_ollama srv prompt max_retries sent =
              (Inl TimedOut, sent @ replicate (nat max_retries) (POST_generate prompt))"
      by simp
  qed
qed

theorem query_ollama_exhausts_retries_witness:
  "query_ollama always_refused (lit ''hello'') 3 [] =
     (Inl (HTTPException 503
        ''Cannot connect to Ollama. Make sure Ollama is running on localhost:11434''),
      [POST_generate (lit ''hello''), POST_generate (lit ''hello''), POST_generate (lit ''hello'')])
   \<and> query_ollama always_timeout (lit ''hello'') 3 [] =
     (Inl (HTTPException 504 ''Ollama request timed out. Please try again.''),
      [POST_generate (lit ''hello''), POST_generate (lit ''hello''), POST_generate (lit ''hello'')])
   \<and> query_ollama refused_then_connect_timeout (lit ''hello'') 3 [] =
     (Inl (HTTPException 503
        ''Cannot connect to Ollama. Make sure Ollama is running on localhost:11434''),
      [POST_generate (lit ''hello''), POST_generate (lit ''hello''), POST_generate (lit ''hello'')])"
  using query_ollama_exhausts_retries[of 3 always_refused "[]" "lit ''hello''"
          "\<lambda>k. ConnectionError"]
        query_ollama_exhausts_retries[of 3 always_timeout "[]" "lit ''hello''"
          "\<lambda>k. ReadTimeout"]
        query_ollama_exhausts_retries[of 3 refused_then_connect_timeout "[]" "lit ''hello''"
          "\<lambda>k. if k = 0 then ConnectionError else ConnectTimeout"]
  by (simp add: always_refused_def always_timeout_def refused_then_connect_timeout_def
      Unreachable_def TimedOut_def numeral_3_eq_3 less_Suc_eq)

text \<open>
  C4. For every \<open>max_retries\<close> and every attempt number \<open>N\<close> from 1 to \<open>max_retries\<close>:
  when the first \<open>N - 1\<close> attempts fail, with whatever exception, and attempt \<open>N\<close>
  succeeds with the value \<open>v\<close>, \<open>query_ollama\<close> returns \<open>v\<close> after exactly \<open>N\<close> posted
  requests and raises nothing.
\<close>

theorem query_ollama_recovers:
  assumes "1 \<le> N" and "int N \<le> max_retries"
    and "\<forall>k<N - 1. \<exists>c. try_body (srv (sent @ replicate k (POST_generate prompt))
                                    (POST_generate prompt)) = Inl c"
    and "try_body (srv (sent @ replicate (N - 1) (POST_generate prompt))
                       (POST_generate prompt)) = Inr v"
  shows "query_ollama srv prompt max_retries sent =
           (Inr (Some v), sent @ replicate N (POST_generate prompt))"
  using assms by (rule query_ollama_nth_success)

theorem query_ollama_recovers_witness:
  "query_ollama flaky_server (lit ''hello'') 3 [] =
     (Inr (Some (lit ''Negative'')),
      [POST_generate (lit ''hello''), POST_generate (lit ''hello''), POST_generate (lit ''hello'')])"
  using query_ollama_recovers[of 3 3 flaky_server "[]" "lit ''hello''" "lit ''Negative''"]
  by (simp add: flaky_server_def ok_reply_def try_body_def raise_for_status_def
      strip_def rstrip_def lstrip_def isspace_def lit_def numeral_3_eq_3 less_Suc_eq)

text \<open>
  C9. With \<open>max_retries\<close> zero or negative the loop body never runs: \<open>query_ollama\<close>
  posts nothing and returns \<open>None\<close>, which is neither a string nor an error. With
  \<open>max_retries\<close> of at least 1 it never returns \<open>None\<close>.
\<close>

theorem query_ollama_total_iff:
  "(max_retries \<le> 0 \<longrightarrow> query_ollama srv prompt max_retries sent = (Inr None, sent))
   \<and> (1 \<le> max_retries \<longrightarrow> fst (query_ollama srv prompt max_retries sent) \<noteq> Inr None)"
proof (intro conjI impI)
  assume "max_retries \<le> 0"
  then show "query_ollama srv prompt max_retries sent = (Inr None, sent)"
    by (simp add: query_ollama_def)
next
  assume "1 \<le> max_retries"
  then have "0 \<le> max_retries - 1" by simp
  from attempts_not_None[OF this refl]
  show "fst (query_ollama srv prompt max_retries sent) \<noteq> Inr None"
    by (simp add: query_ollama_def)
qed

theorem query_ollama_total_iff_witness:
  "query_ollama always_refused (lit ''hello'') 0 [] = (Inr None, [])
   \<and> query_ollama always_refused (lit ''hello'') (- 2) [] = (Inr None, [])
   \<and> fst (query_ollama always_refused (lit ''hello'') 1 []) \<noteq> Inr None"
  using query_ollama_total_iff[of 0 always_refused "lit ''hello''" "[]"]
        query_ollama_total_iff[of "- 2" always_refused "lit ''hello''" "[]"]
        query_ollama_total_iff[of 1 always_refused "lit ''hello''" "[]"]
  by simp

text \<open>
  C3, as the specification states it, fails: \<open>query_ollama\<close> does not return the response text
  as received. A server answering with the text \<open>" Positive "\<close> makes it return
  \<open>"Positive"\<close>, because line 41 applies \<open>strip()\<close> to the text.
\<close>

theorem query_ollama_returns_raw_counterexample:
  "padded_server [] (POST_generate (lit ''hello'')) =
     Response 200 (JDict [lit ''response'' \<mapsto> JString (lit '' Positive '')])
   \<and> fst (query_ollama padded_server (lit ''hello'') 3 []) = Inr (Some (lit ''Positive''))
   \<and> lit ''Positive'' \<noteq> lit '' Positive ''"
  by (simp add: query_ollama_def padded_server_def ok_reply_def try_body_def raise_for_status_def
      upto_rec1 Let_def strip_def rstrip_def lstrip_def isspace_def lit_def)

text \<open>
  C3, amended. For every successful call, that is when attempt \<open>N\<close> (after \<open>N - 1\<close> failed
  attempts, \<open>N\<close> at most \<open>max_retries\<close>) receives a response whose status raises nothing
  and whose payload is a JSON object: \<open>query_ollama\<close> returns the text of the \<open>response\<close>
  field with its leading and trailing whitespace stripped, or the empty string when the
  object has no \<open>response\<close> field.
\<close>

theorem query_ollama_returns_stripped:
  assumes "1 \<le> N" and "int N \<le> max_retries"
    and "\<forall>k<N - 1. \<exists>c. try_body (srv (sent @ replicate k (POST_generate prompt))
                                    (POST_generate prompt)) = Inl c"
    and "srv (sent @ replicate (N - 1) (POST_generate prompt)) (POST_generate prompt)
           = Response status_code (JDict result)"
    and "\<not> raise_for_status status_code"
  shows "(result (lit ''response'') = Some (JString s) \<longrightarrow>
            query_ollama srv prompt max_retries sent =
              (Inr (Some (strip s)), sent @ replicate N (POST_generate prompt)))
       \<and> (result (lit ''response'') = None \<longrightarrow>
            query_ollama srv prompt max_retries sent =
              (Inr (Some []), sent @ replicate N (POST_generate prompt)))"
proof (intro conjI impI)
  assume "result (lit ''response'') = Some (JString s)"
  then have "try_body (srv (sent @ replicate (N - 1) (POST_generate prompt))
                       (POST_generate prompt)) = Inr (strip s)"
    using assms(4,5) by (simp add: try_body_def)
  with assms(1,2,3) show "query_ollama srv prompt max_retries sent =
              (Inr (Some (strip s)), sent @ replicate N (POST_generate prompt))"
    by (rule query_ollama_nth_success)
next
  assume "result (lit ''response'') = None"
  then have "try_body (srv (sent @ replicate (N - 1) (POST_generate prompt))
                       (POST_generate prompt)) = Inr []"
    using assms(4,5) by (simp add: try_body_def strip_def rstrip_def lstrip_def)
  with assms(1,2,3) show "query_ollama srv prompt max_retries sent =
              (Inr (Some []), sent @ replicate N (POST_generate prompt))"
    by (rule query_ollama_nth_success)
qed

theorem query_ollama_returns_stripped_witness:
  "query_ollama padded_server (lit ''hello'') 3 [] =
     (Inr (Some (strip (lit '' Positive ''))), [POST_generate (lit ''hello'')])
   \<and> query_ollama silent_server (lit ''hello'') 3 [] =
     (Inr (Some []), [POST_generate (lit ''hello'')])"
  using query_ollama_returns_stripped[of 1 3 padded_server "[]" "lit ''hello''" 200
          "[lit ''response'' \<mapsto> JString (lit '' Positive '')]" "lit '' Positive ''"]
        query_ollama_returns_stripped[of 1 3 silent_server "[]" "lit ''hello''" 200
          "Map.empty" "[]"]
  by (simp add: padded_server_def silent_server_def ok_reply_def raise_for_status_def)

section \<open>Claims about the clean-up of a response\<close>

text \<open>
  C6. For every raw response string the clean-up raises nothing and returns the first line,
  that is the text before the first newline character (the whole text when there is none),
  without its leading and trailing whitespace: the line is whitespace, then the result, then
  whitespace, and a result that is not empty neither starts nor ends with whitespace.
  Nothing is validated: a label on one line with no whitespace around it, in the vocabulary
  or not, is returned unchanged. The two-line string whose first line is \<open>Positive\<close> gives
  \<open>Positive\<close>.
\<close>

theorem normalize_first_line_stripped:
  "(\<exists>line first pre post.
       normalize raw = Inr first
     \<and> (raw = line \<or> (\<exists>rest. raw = line @ NL # rest)) \<and> NL \<notin> set line
     \<and> line = pre @ first @ post
     \<and> (\<forall>c\<in>set pre. isspace c) \<and> (\<forall>c\<in>set post. isspace c)
     \<and> (first \<noteq> [] \<longrightarrow> \<not> isspace (hd first) \<and> \<not> isspace (last first)))
   \<and> (raw \<noteq> [] \<and> NL \<notin> set raw \<and> \<not> isspace (hd raw) \<and> \<not> isspace (last raw)
        \<longrightarrow> normalize raw = Inr raw)
   \<and> normalize (lit ''Positive\<newline>Because the item arrived quickly'') = Inr (lit ''Positive'')"
proof (intro conjI impI)
  let ?line = "takeWhile (\<lambda>c. c \<noteq> NL) raw"
  let ?pre = "takeWhile isspace ?line"
  let ?post = "rev (takeWhile isspace (rev (lstrip ?line)))"
  have 1: "normalize raw = Inr (strip ?line)" by (rule normalize_eq)
  have 2: "raw = ?line \<or> (\<exists>rest. raw = ?line @ NL # rest)"
  proof (cases "dropWhile (\<lambda>c. c \<noteq> NL) raw")
    case Nil
    then have "raw = ?line" by (metis append_Nil2 takeWhile_dropWhile_id)
    then show ?thesis ..
  next
    case (Cons x rest)
    then have "x = NL" using hd_dropWhile[of "\<lambda>c. c \<noteq> NL" raw] by auto
    with Cons have "raw = ?line @ NL # rest" by (metis takeWhile_dropWhile_id)
    then show ?thesis by blast
  qed
  have 3: "NL \<notin> set ?line" using set_takeWhileD by fastforce
  have 4: "?line = ?pre @ strip ?line @ ?post" by (rule strip_decomp)
  have 5: "\<forall>c\<in>set ?pre. isspace c" using set_takeWhileD by fastforce
  have 6: "\<forall>c\<in>set ?post. isspace c" using set_takeWhileD by fastforce
  have 7: "strip ?line \<noteq> [] \<longrightarrow> \<not> isspace (hd (strip ?line)) \<and> \<not> isspace (last (strip ?line))"
    using strip_edges by blast
  from 1 2 3 4 5 6 7 show "\<exists>line first pre post.
       normalize raw = Inr first
     \<and> (raw = line \<or> (\<exists>rest. raw = line @ NL # rest)) \<and> NL \<notin> set line
     \<and> line = pre @ first @ post
     \<and> (\<forall>c\<in>set pre. isspace c) \<and> (\<forall>c\<in>set post. isspace c)
     \<and> (first \<noteq> [] \<longrightarrow> \<not> isspace (hd first) \<and> \<not> isspace (last first))"
    by blast
next
  assume a: "raw \<noteq> [] \<and> NL \<notin> set raw \<and> \<not> isspace (hd raw) \<and> \<not> isspace (last raw)"
  then have tw: "takeWhile (\<lambda>c. c \<noteq> NL) raw = raw" by (auto simp: takeWhile_eq_all_conv)
  have sr: "strip raw = raw" using a by (simp add: strip_id)
  show "normalize raw = Inr raw" by (simp only: normalize_eq tw sr)
next
  show "normalize (lit ''Positive\<newline>Because the item arrived quickly'') = Inr (lit ''Positive'')"
    by (simp add: normalize_eq lit_def NL_def strip_def rstrip_def lstrip_def isspace_def)
qed

theorem normalize_first_line_stripped_witness:
  "normalize (lit ''Mixed'') = Inr (lit ''Mixed'')"
  using normalize_first_line_stripped[of "lit ''Mixed''"]
  by (simp add: lit_def NL_def isspace_def)

section \<open>Claims about \<open>analyze_review\<close>\<close>

text \<open>
  C5. For every text that is empty or made of whitespace only, \<open>analyze_review\<close> raises the
  400 error \<open>EmptyInput\<close> and issues no request: the list of requests is unchanged.
\<close>

theorem analyze_review_rejects_blank:
  assumes "\<forall>c\<in>set text. isspace c"
  shows "analyze_review srv text sent = (Inl EmptyInput, sent)"
  using assms by (simp add: analyze_review_def strip_empty_iff)

theorem analyze_review_rejects_blank_witness:
  "analyze_review padded_server [] [] = (Inl (HTTPException 400 ''Review text cannot be empty''), [])
   \<and> analyze_review padded_server (lit '' \<newline>  '') [] =
       (Inl (HTTPException 400 ''Review text cannot be empty''), [])"
  using analyze_review_rejects_blank[of "[]" padded_server "[]"]
        analyze_review_rejects_blank[of "lit '' \<newline>  ''" padded_server "[]"]
  by (simp add: EmptyInput_def lit_def isspace_def)

text \<open>
  C7. For every review text, empty or not, each of the three prompts (sentiment, topic,
  summary) contains the text verbatim as a substring; in the sentiment prompt the text
  comes after the instruction to respond with only one word: Positive, Neutral, or
  Negative.
\<close>

theorem prompts_embed_text:
  "(\<exists>pre post. sentiment_prompt text = pre @ text @ post
      \<and> (\<exists>a b. pre = a @ lit ''respond with only one word: Positive, Neutral, or Negative.'' @ b))
   \<and> (\<exists>pre post. topic_prompt text = pre @ text @ post)
   \<and> (\<exists>pre post. summary_prompt text = pre @ text @ post)"
proof (intro conjI)
  let ?a = "lit ''Analyze the sentiment of this product review and ''"
  let ?i = "lit ''respond with only one word: Positive, Neutral, or Negative.''"
  let ?b = "lit ''\<newline>\<newline>Review: '' @ lit [CHR 0x22]"
  have "sentiment_prompt text = (?a @ ?i @ ?b) @ text @ (lit [CHR 0x22] @ lit ''\<newline>\<newline>Sentiment:'')"
    by (simp add: sentiment_prompt_def lit_def)
  then show "\<exists>pre post. sentiment_prompt text = pre @ text @ post
      \<and> (\<exists>a b. pre = a @ ?i @ b)"
    by blast
next
  have "topic_prompt text =
     (lit ''Identify the main topic or issue discussed in this product review. Choose from these categories or provide a brief 2-3 word description:\<newline>''
     @ lit ''- Product Quality\<newline>''
     @ lit ''- Delivery/Shipping  \<newline>''
     @ lit ''- Price/Value\<newline>''
     @ lit ''- Customer Service\<newline>''
     @ lit ''- Design/Appearance\<newline>''
     @ lit ''- Functionality\<newline>''
     @ lit ''- Durability\<newline>\<newline>Review: ''
     @ lit [CHR 0x22]) @ text @ (lit [CHR 0x22] @ lit ''\<newline>\<newline>Main Topic:'')"
    by (simp only: topic_prompt_def append_assoc)
  then show "\<exists>pre post. topic_prompt text = pre @ text @ post" by blast
next
  have "summary_prompt text =
     (lit ''Summarize this product review in one concise sentence (maximum 15 words):\<newline>\<newline>Review: ''
     @ lit [CHR 0x22]) @ text @ (lit [CHR 0x22] @ lit ''\<newline>\<newline>Summary:'')"
    by (simp only: summary_prompt_def append_assoc)
  then show "\<exists>pre post. summary_prompt text = pre @ text @ post" by blast
qed

subsection \<open>The requests of one analysis\<close>

lemma hd_prompts:
  "hd (sentiment_prompt t) = 65" "hd (topic_prompt t) = 73" "hd (summary_prompt t) = 83"
  by (simp_all add: sentiment_prompt_def topic_prompt_def summary_prompt_def lit_def)

lemma sentiment_topic_distinct: "sentiment_prompt t \<noteq> topic_prompt t'"
proof
  assume "sentiment_prompt t = topic_prompt t'"
  then have "hd (sentiment_prompt t) = hd (topic_prompt t')" by (rule arg_cong)
  then show False by (simp add: hd_prompts)
qed

lemma sentiment_summary_distinct: "sentiment_prompt t \<noteq> summary_prompt t'"
proof
  assume "sentiment_prompt t = summary_prompt t'"
  then have "hd (sentiment_prompt t) = hd (summary_prompt t')" by (rule arg_cong)
  then show False by (simp add: hd_prompts)
qed

lemma topic_summary_distinct: "topic_prompt t \<noteq> summary_prompt t'"
proof
  assume "topic_prompt t = summary_prompt t'"
  then have "hd (topic_prompt t) = hd (summary_prompt t')" by (rule arg_cong)
  then show False by (simp add: hd_prompts)
qed

lemma query_ollama_sent:
  assumes "query_ollama srv p m sent = (r, sent')"
  shows "\<exists>k. sent' = sent @ replicate k (POST_generate p)"
  using attempts_sent[OF assms[unfolded query_ollama_def]] by blast

lemma query_ollama_empty_success:
  assumes "empty_success (srv sent (POST_generate p))"
  shows "query_ollama srv p 3 sent = (Inr (Some []), sent @ [POST_generate p])"
proof -
  have "try_body (srv sent (POST_generate p)) = Inr []"
    using assms
    by (auto simp: empty_success_def try_body_def strip_def rstrip_def lstrip_def
             split: reply.splits body.splits)
  then show ?thesis
    unfolding query_ollama_def by (rule attempts_success) simp
qed

lemma clean_empty: "clean (Some []) = Inr []"
  by (simp add: clean_def normalize_eq strip_def rstrip_def lstrip_def)

text \<open>
  C10. When the server answers each of the three calls with a success whose content field
  is missing or empty, \<open>analyze_review\<close> returns the result whose sentiment, topic and
  summary are all the empty string. Nothing is treated as an error and nothing is retried:
  exactly three requests are issued, one for each prompt.
\<close>

theorem analyze_review_empty_responses:
  assumes "strip text \<noteq> []"
    and "empty_success (srv sent (POST_generate (sentiment_prompt text)))"
    and "empty_success (srv (sent @ [POST_generate (sentiment_prompt text)])
                            (POST_generate (topic_prompt text)))"
    and "empty_success (srv (sent @ [POST_generate (sentiment_prompt text),
                                     POST_generate (topic_prompt text)])
                            (POST_generate (summary_prompt text)))"
  shows "analyze_review srv text sent =
           (Inr \<lparr>sentiment = [], topic = [], summary = []\<rparr>,
            sent @ [POST_generate (sentiment_prompt text), POST_generate (topic_prompt text),
                    POST_generate (summary_prompt text)])"
proof -
  let ?S = "POST_generate (sentiment_prompt text)"
  let ?T = "POST_generate (topic_prompt text)"
  let ?U = "POST_generate (summary_prompt text)"
  have 1: "query_ollama srv (sentiment_prompt text) 3 sent = (Inr (Some []), sent @ [?S])"
    using query_ollama_empty_success[where srv=srv and sent=sent, OF assms(2)] .
  have 2: "query_ollama srv (topic_prompt text) 3 (sent @ [?S]) = (Inr (Some []), sent @ [?S, ?T])"
    using query_ollama_empty_success[where srv=srv and sent="sent @ [?S]", OF assms(3)] by simp
  have 3: "query_ollama srv (summary_prompt text) 3 (sent @ [?S, ?T])
             = (Inr (Some []), sent @ [?S, ?T, ?U])"
    using query_ollama_empty_success[where srv=srv and sent="sent @ [?S, ?T]", OF assms(4)] by simp
  show ?thesis
    using assms(1) by (simp add: analyze_review_def 1 2 3 clean_empty)
qed

theorem analyze_review_empty_responses_witness:
  "analyze_review silent_server (lit ''Great phone'') [] =
     (Inr \<lparr>sentiment = [], topic = [], summary = []\<rparr>,
      [POST_generate (sentiment_prompt (lit ''Great phone'')),
       POST_generate (topic_prompt (lit ''Great phone'')),
       POST_generate (summary_prompt (lit ''Great phone''))])
   \<and> analyze_review empty_text_server (lit ''Great phone'') [] =
     (Inr \<lparr>sentiment = [], topic = [], summary = []\<rparr>,
      [POST_generate (sentiment_prompt (lit ''Great phone'')),
       POST_generate (topic_prompt (lit ''Great phone'')),
       POST_generate (summary_prompt (lit ''Great phone''))])"
proof -
  have t: "strip (lit ''Great phone'') \<noteq> []"
    by (simp add: strip_def rstrip_def lstrip_def isspace_def lit_def)
  have s: "\<And>sent r. empty_success (silent_server sent r)"
    by (simp add: empty_success_def silent_server_def raise_for_status_def)
  have e: "\<And>sent r. empty_success (empty_text_server sent r)"
    by (simp add: empty_success_def empty_text_server_def ok_reply_def raise_for_status_def)
  show ?thesis
    using analyze_review_empty_responses[where sent="[]", OF t s s s]
          analyze_review_empty_responses[where sent="[]", OF t e e e]
    by simp
qed

text \<open>
  C1. For every review text that is not blank: when the sentiment call raises, or the
  sentiment call returns and the topic call raises, or both return and the summary call
  raises, \<open>analyze_review\<close> raises the very error of the failing call, and its result is that
  error and no analysis. The later calls are not issued: no topic or summary request is
  among the requests of an analysis whose sentiment call raised, and no summary request
  among those of an analysis whose topic call raised. In particular a topic call failing
  with \<open>ModelError\<close> after a successful sentiment call makes \<open>analyze_review\<close> raise
  \<open>ModelError\<close>.
\<close>

theorem analyze_review_propagates:
  assumes "strip text \<noteq> []"
  shows
  "(query_ollama srv (sentiment_prompt text) 3 sent = (Inl e, sent1) \<longrightarrow>
      analyze_review srv text sent = (Inl e, sent1)
      \<and> POST_generate (topic_prompt text) \<notin> set (drop (length sent) sent1)
      \<and> POST_generate (summary_prompt text) \<notin> set (drop (length sent) sent1))
   \<and> (query_ollama srv (sentiment_prompt text) 3 sent = (Inr r1, sent1)
      \<and> query_ollama srv (topic_prompt text) 3 sent1 = (Inl e, sent2) \<longrightarrow>
      analyze_review srv text sent = (Inl e, sent2)
      \<and> POST_generate (summary_prompt text) \<notin> set (drop (length sent) sent2))
   \<and> (query_ollama srv (sentiment_prompt text) 3 sent = (Inr r1, sent1)
      \<and> query_ollama srv (topic_prompt text) 3 sent1 = (Inr r2, sent2)
      \<and> query_ollama srv (summary_prompt text) 3 sent2 = (Inl e, sent3) \<longrightarrow>
      analyze_review srv text sent = (Inl e, sent3))"
proof (intro conjI impI)
  assume q: "query_ollama srv (sentiment_prompt text) 3 sent = (Inl e, sent1)"
  show "analyze_review srv text sent = (Inl e, sent1)"
    using assms q by (simp add: analyze_review_def)
  from query_ollama_sent[OF q] obtain k where
    "sent1 = sent @ replicate k (POST_generate (sentiment_prompt text))" ..
  then have d: "set (drop (length sent) sent1) \<subseteq> {POST_generate (sentiment_prompt text)}"
    by auto
  have "POST_generate (topic_prompt text) \<noteq> POST_generate (sentiment_prompt text)"
    using sentiment_topic_distinct[of "text" "text"] by auto
  with d show "POST_generate (topic_prompt text) \<notin> set (drop (length sent) sent1)"
    by blast
  have "POST_generate (summary_prompt text) \<noteq> POST_generate (sentiment_prompt text)"
    using sentiment_summary_distinct[of "text" "text"] by auto
  with d show "POST_generate (summary_prompt text) \<notin> set (drop (length sent) sent1)"
    by blast
next
  assume q: "query_ollama srv (sentiment_prompt text) 3 sent = (Inr r1, sent1)
      \<and> query_ollama srv (topic_prompt text) 3 sent1 = (Inl e, sent2)"
  then show "analyze_review srv text sent = (Inl e, sent2)"
    using assms by (simp add: analyze_review_def)
  from q query_ollama_sent obtain k where
    k: "sent1 = sent @ replicate k (POST_generate (sentiment_prompt text))" by blast
  from q query_ollama_sent obtain j where
    j: "sent2 = sent1 @ replicate j (POST_generate (topic_prompt text))" by blast
  from k j have d: "set (drop (length sent) sent2)
      \<subseteq> {POST_generate (sentiment_prompt text), POST_generate (topic_prompt text)}"
    by auto
  have "POST_generate (summary_prompt text) \<noteq> POST_generate (sentiment_prompt text)"
    using sentiment_summary_distinct[of "text" "text"] by auto
  moreover have "POST_generate (summary_prompt text) \<noteq> POST_generate (topic_prompt text)"
    using topic_summary_distinct[of "text" "text"] by auto
  ultimately show "POST_generate (summary_prompt text) \<notin> set (drop (length sent) sent2)"
    using d by blast
next
  assume "query_ollama srv (sentiment_prompt text) 3 sent = (Inr r1, sent1)
      \<and> query_ollama srv (topic_prompt text) 3 sent1 = (Inr r2, sent2)
      \<and> query_ollama srv (summary_prompt text) 3 sent2 = (Inl e, sent3)"
  then show "analyze_review srv text sent = (Inl e, sent3)"
    using assms by (simp add: analyze_review_def)
qed

theorem analyze_review_propagates_witness:
  "analyze_review always_refused (lit ''ok'') [] =
     (Inl Unreachable,
      [POST_generate (sentiment_prompt (lit ''ok'')), POST_generate (sentiment_prompt (lit ''ok'')),
       POST_generate (sentiment_prompt (lit ''ok''))])
   \<and> analyze_review topic_failing_server (lit ''ok'') [] =
     (Inl ModelError,
      [POST_generate (sentiment_prompt (lit ''ok'')), POST_generate (topic_prompt (lit ''ok'')),
       POST_generate (topic_prompt (lit ''ok'')), POST_generate (topic_prompt (lit ''ok''))])
   \<and> POST_generate (summary_prompt (lit ''ok''))
       \<notin> set [POST_generate (sentiment_prompt (lit ''ok'')), POST_generate (topic_prompt (lit ''ok'')),
                POST_generate (topic_prompt (lit ''ok'')), POST_generate (topic_prompt (lit ''ok''))]
   \<and> analyze_review summary_failing_server (lit ''ok'') [] =
     (Inl TimedOut,
      [POST_generate (sentiment_prompt (lit ''ok'')), POST_generate (topic_prompt (lit ''ok'')),
       POST_generate (summary_prompt (lit ''ok'')), POST_generate (summary_prompt (lit ''ok'')),
       POST_generate (summary_prompt (lit ''ok''))])"
proof -
  let ?S = "POST_generate (sentiment_prompt (lit ''ok''))"
  let ?T = "POST_generate (topic_prompt (lit ''ok''))"
  let ?U = "POST_generate (summary_prompt (lit ''ok''))"
  have t: "strip (lit ''ok'') \<noteq> []"
    by (simp add: strip_def rstrip_def lstrip_def isspace_def lit_def)
  have p: "strip (lit ''Positive'') = lit ''Positive''"
    by (simp add: strip_def rstrip_def lstrip_def isspace_def lit_def)
  have a: "query_ollama always_refused (sentiment_prompt (lit ''ok'')) 3 [] =
             (Inl Unreachable, [?S, ?S, ?S])"
    by (simp add: query_ollama_def always_refused_def try_body_def upto_rec1 Let_def)
  have b1: "query_ollama topic_failing_server (sentiment_prompt (lit ''ok'')) 3 [] =
             (Inr (Some (lit ''Positive'')), [?S])"
    by (simp add: query_ollama_def topic_failing_server_def ok_reply_def try_body_def
        raise_for_status_def upto_rec1 Let_def p)
  have b2: "query_ollama topic_failing_server (topic_prompt (lit ''ok'')) 3 [?S] =
             (Inl ModelError, [?S, ?T, ?T, ?T])"
    by (simp add: query_ollama_def topic_failing_server_def try_body_def
        raise_for_status_def upto_rec1 Let_def)
  have c1: "query_ollama summary_failing_server (sentiment_prompt (lit ''ok'')) 3 [] =
             (Inr (Some (lit ''Positive'')), [?S])"
    by (simp add: query_ollama_def summary_failing_server_def ok_reply_def try_body_def
        raise_for_status_def upto_rec1 Let_def p)
  have c2: "query_ollama summary_failing_server (topic_prompt (lit ''ok'')) 3 [?S] =
             (Inr (Some (lit ''Positive'')), [?S, ?T])"
    by (simp add: query_ollama_def summary_failing_server_def ok_reply_def try_body_def
        raise_for_status_def upto_rec1 Let_def p)
  have c3: "query_ollama summary_failing_server (summary_prompt (lit ''ok'')) 3 [?S, ?T] =
             (Inl TimedOut, [?S, ?T, ?U, ?U, ?U])"
    by (simp add: query_ollama_def summary_failing_server_def try_body_def upto_rec1 Let_def)
  show ?thesis
    using analyze_review_propagates[OF t, where srv=always_refused and sent="[]"
            and e=Unreachable and ?sent1.0="[?S, ?S, ?S]"]
          analyze_review_propagates[OF t, where srv=topic_failing_server and sent="[]"
            and e=ModelError and ?r1.0="Some (lit ''Positive'')" and ?sent1.0="[?S]"
            and ?sent2.0="[?S, ?T, ?T, ?T]"]
          analyze_review_propagates[OF t, where srv=summary_failing_server and sent="[]"
            and e=TimedOut and ?r1.0="Some (lit ''Positive'')" and ?sent1.0="[?S]"
            and ?r2.0="Some (lit ''Positive'')" and ?sent2.0="[?S, ?T]"
            and ?sent3.0="[?S, ?T, ?U, ?U, ?U]"]
    by (simp add: a b1 b2 c1 c2 c3)
qed

section \<open>Claims about \<open>health_check\<close>\<close>

text \<open>
  C8, as the specification states it, fails for a status that is neither 2xx nor an error
  status: on a 304 response \<open>raise_for_status\<close> raises nothing and \<open>health_check\<close>
  reports healthy.
\<close>

theorem health_check_non_2xx_counterexample:
  "not_modified_server [] GET_tags = Response 304 NotJSON
   \<and> \<not> (200 \<le> (304::int) \<and> (304::int) < 300)
   \<and> health_check not_modified_server [] =
       (Inr \<lparr>status = ''healthy'', ollama = ''connected''\<rparr>, [GET_tags])"
  by (simp add: health_check_def not_modified_server_def raise_for_status_def)

text \<open>
  C8, amended. \<open>health_check\<close> never raises: whatever the probe does, it issues the one
  request to the listing endpoint and returns a report. The report is healthy exactly when
  the request returns a response whose status code is not from 400 to 599; a connection
  failure, a timeout, any other exception and a 4xx or 5xx status all give unhealthy.
\<close>

theorem health_check_never_raises:
  "\<exists>h. health_check srv sent = (Inr h, sent @ [GET_tags])
     \<and> (healthy h \<longleftrightarrow>
          (\<exists>status_code b. srv sent GET_tags = Response status_code b
             \<and> \<not> (400 \<le> status_code \<and> status_code < 600)))"
  by (cases "srv sent GET_tags")
     (auto simp: health_check_def healthy_def raise_for_status_def Let_def)

theorem health_check_never_raises_witness:
  "(\<exists>h. health_check always_refused [] = (Inr h, [GET_tags]) \<and> \<not> healthy h)
   \<and> (\<exists>h. health_check no_content_server [] = (Inr h, [GET_tags]) \<and> healthy h)"
  using health_check_never_raises[of always_refused "[]"]
        health_check_never_raises[of no_content_server "[]"]
  by (simp add: always_refused_def no_content_server_def)

end
